theory Spec2Isabelle
  imports Complex_Main
begin

section \<open>Python values, exceptions and the operators the valuation code applies\<close>

text \<open>
  The functions of \<^verbatim>\<open>stock_valuation_app.py\<close> read a dictionary of fundamentals
  (\<^verbatim>\<open>yf.Ticker(ticker).info\<close>) whose values are dynamically typed. A value is
  \<^verbatim>\<open>None\<close>, a number or a string (the malformed case). Numbers are the real
  numbers: the rounding error, overflow, infinities and NaN of IEEE doubles are outside
  this model, so every equation below is an equation of the formulas the code evaluates.
  Every operation that can raise returns \<open>py_error + 'a\<close>, with \<open>Inl\<close> the exception.
  A function that takes a \<^verbatim>\<open>ticker\<close> takes here the outcome of the fetch it makes with
  it, and the valuation functions return, next to their result, the messages they show
  with \<^verbatim>\<open>st.warning\<close> and \<^verbatim>\<open>st.error\<close>.
\<close>

datatype py_error = TypeError | ZeroDivisionError | IndexError | ProviderError

datatype pyval = PyNone | PyNum real | PyStr string

type_synonym info_dict = "string \<rightharpoonup> pyval"

text \<open>The outcome of \<^verbatim>\<open>yf.Ticker(ticker).info\<close>: the provider raises, or a dictionary.\<close>

type_synonym stock_info = "py_error + info_dict"

definition py_bind :: "py_error + 'a \<Rightarrow> ('a \<Rightarrow> py_error + 'b) \<Rightarrow> py_error + 'b" where
  "py_bind m f = (case m of Inl e \<Rightarrow> Inl e | Inr v \<Rightarrow> f v)"

text \<open>\<^verbatim>\<open>try: body  except ...: handler\<close>\<close>

definition try_except :: "py_error + 'a \<Rightarrow> (py_error \<Rightarrow> py_error + 'a) \<Rightarrow> py_error + 'a" where
  "try_except body handler = (case body of Inl e \<Rightarrow> handler e | Inr v \<Rightarrow> Inr v)"

text \<open>\<^verbatim>\<open>info.get(key, default)\<close>: the default applies only when the key is absent.\<close>

definition dict_get :: "info_dict \<Rightarrow> string \<Rightarrow> pyval \<Rightarrow> pyval" where
  "dict_get info k d = (case info k of None \<Rightarrow> d | Some v \<Rightarrow> v)"

definition is_None :: "pyval \<Rightarrow> bool" where
  "is_None v = (case v of PyNone \<Rightarrow> True | _ \<Rightarrow> False)"

text \<open>Truth value of an object in a condition.\<close>

definition py_truthy :: "pyval \<Rightarrow> bool" where
  "py_truthy v = (case v of PyNone \<Rightarrow> False | PyNum x \<Rightarrow> x \<noteq> 0 | PyStr s \<Rightarrow> s \<noteq> [])"

text \<open>The numeric operand of an arithmetic operator; anything else is a \<^verbatim>\<open>TypeError\<close>.\<close>

definition num_of :: "pyval \<Rightarrow> py_error + real" where
  "num_of v = (case v of PyNum x \<Rightarrow> Inr x | _ \<Rightarrow> Inl TypeError)"

text \<open>\<^verbatim>\<open>v > c\<close> and \<^verbatim>\<open>v <= c\<close> against a number \<open>c\<close>.\<close>

definition py_gt :: "pyval \<Rightarrow> real \<Rightarrow> py_error + bool" where
  "py_gt v c = (case v of PyNum x \<Rightarrow> Inr (c < x) | _ \<Rightarrow> Inl TypeError)"

definition py_le :: "pyval \<Rightarrow> real \<Rightarrow> py_error + bool" where
  "py_le v c = (case v of PyNum x \<Rightarrow> Inr (x \<le> c) | _ \<Rightarrow> Inl TypeError)"

text \<open>\<^verbatim>\<open>a / b\<close> on numbers raises on a zero divisor.\<close>

definition py_div :: "real \<Rightarrow> real \<Rightarrow> py_error + real" where
  "py_div a b = (if b = 0 then Inl ZeroDivisionError else Inr (a / b))"

text \<open>\<^verbatim>\<open>a / b\<close> on values: the operand types are checked before the divisor.\<close>

definition py_truediv :: "pyval \<Rightarrow> pyval \<Rightarrow> py_error + real" where
  "py_truediv a b = py_bind (num_of a) (\<lambda>x. py_bind (num_of b) (\<lambda>y. py_div x y))"

text \<open>\<^verbatim>\<open>a + b\<close> on values: numbers add, strings concatenate, any other pair raises.\<close>

fun py_add :: "pyval \<Rightarrow> pyval \<Rightarrow> py_error + pyval" where
  "py_add (PyNum x) (PyNum y) = Inr (PyNum (x + y))"
| "py_add (PyStr s) (PyStr t) = Inr (PyStr (s @ t))"
| "py_add _ _ = Inl TypeError"

text \<open>\<^verbatim>\<open>xs[i]\<close> for \<open>i \<ge> 0\<close> and \<^verbatim>\<open>xs[-1]\<close>.\<close>

definition list_get :: "'a list \<Rightarrow> nat \<Rightarrow> py_error + 'a" where
  "list_get xs i = (if i < length xs then Inr (xs ! i) else Inl IndexError)"

definition py_last :: "'a list \<Rightarrow> py_error + 'a" where
  "py_last xs = (case xs of [] \<Rightarrow> Inl IndexError | _ \<Rightarrow> Inr (last xs))"

text \<open>A list comprehension whose element expression can raise: left to right, the first
  exception ends it.\<close>

fun map_result :: "('a \<Rightarrow> py_error + 'b) \<Rightarrow> 'a list \<Rightarrow> py_error + 'b list" where
  "map_result f [] = Inr []"
| "map_result f (x # xs) =
     (case f x of Inl e \<Rightarrow> Inl e
      | Inr y \<Rightarrow> (case map_result f xs of Inl e \<Rightarrow> Inl e | Inr ys \<Rightarrow> Inr (y # ys)))"

text \<open>\<^verbatim>\<open>round(x, ndigits)\<close>: to the nearest multiple of \<open>10^-ndigits\<close>, a tie to the
  even one.\<close>

definition py_round :: "real \<Rightarrow> nat \<Rightarrow> real" where
  "py_round x ndigits =
     (let y = x * 10 ^ ndigits;
          f = \<lfloor>y\<rfloor>;
          d = y - of_int f
      in (if d < 1 / 2 then of_int f
          else if 1 / 2 < d then of_int (f + 1)
          else if even f then of_int f else of_int (f + 1)) / 10 ^ ndigits)"

section \<open>Constants\<close>

definition TERMINAL_GROWTH_RATE :: real where
  "TERMINAL_GROWTH_RATE = 4 / 100"

definition FORECAST_YEARS :: nat where
  "FORECAST_YEARS = 20"

definition RISK_FREE_RATE :: real where
  "RISK_FREE_RATE = 45 / 1000"

definition MARKET_RISK_PREMIUM :: real where
  "MARKET_RISK_PREMIUM = 25 / 1000"

section \<open>Utility functions\<close>

text \<open>Each of the three getters runs its body under a bare \<^verbatim>\<open>except: pass\<close> and
  falls through to the default \<^verbatim>\<open>return\<close>; the body yields \<open>Some\<close> when it returns.\<close>

definition get_growth_rate :: "stock_info \<Rightarrow> real \<times> string" where
  "get_growth_rate stock =
     (case py_bind stock (\<lambda>info.
             let growth = dict_get info ''earningsQuarterlyGrowth'' PyNone
             in if py_truthy growth
                then py_bind (py_gt growth 0) (\<lambda>positive.
                       if positive
                       then py_bind (num_of growth) (\<lambda>g. Inr (Some (g, ''Yahoo Finance'')))
                       else Inr None)
                else Inr None)
      of Inr (Some r) \<Rightarrow> r
       | _ \<Rightarrow> (10 / 100, ''Default''))"

definition get_eps :: "stock_info \<Rightarrow> real option \<times> string" where
  "get_eps stock =
     (case py_bind stock (\<lambda>info.
             let eps = dict_get info ''trailingEps'' PyNone
             in if py_truthy eps
                then py_bind (py_gt eps 0) (\<lambda>positive.
                       if positive
                       then py_bind (num_of eps) (\<lambda>e. Inr (Some (Some e, ''Yahoo Finance'')))
                       else Inr None)
                else Inr None)
      of Inr (Some r) \<Rightarrow> r
       | _ \<Rightarrow> (None, ''Unavailable''))"

definition get_beta :: "stock_info \<Rightarrow> real" where
  "get_beta stock =
     (case py_bind stock (\<lambda>info.
             let beta = dict_get info ''beta'' PyNone
             in if py_truthy beta
                then py_bind (py_gt beta 0) (\<lambda>positive.
                       if positive
                       then py_bind (num_of beta) (\<lambda>b. Inr (Some b))
                       else Inr None)
                else Inr None)
      of Inr (Some b) \<Rightarrow> b
       | _ \<Rightarrow> 1)"

text \<open>The discount rate the dashboard derives from the fetched beta.\<close>

definition calculated_discount_rate :: "stock_info \<Rightarrow> real" where
  "calculated_discount_rate stock = RISK_FREE_RATE + get_beta stock * MARKET_RISK_PREMIUM"

section \<open>Messages shown on the page\<close>

datatype ui_msg =
    Warning_EPS_unavailable
  | Error_EPS_failed py_error
  | Error_OCF_failed py_error

section \<open>EPS-based valuation\<close>

definition growths :: "real \<Rightarrow> real list" where
  "growths growth_rate =
     [growth_rate, growth_rate, growth_rate / 2, growth_rate / 2, TERMINAL_GROWTH_RATE]"

text \<open>\<^verbatim>\<open>projected = [eps * ((1 + growths[i]) ** (i + 1)) for i in range(FORECAST_YEARS)]\<close>\<close>

definition eps_projected :: "real \<Rightarrow> real \<Rightarrow> py_error + real list" where
  "eps_projected eps growth_rate =
     map_result
       (\<lambda>i. py_bind (list_get (growths growth_rate) i) (\<lambda>g. Inr (eps * (1 + g) ^ (i + 1))))
       [0..<FORECAST_YEARS]"

text \<open>\<^verbatim>\<open>discounted = [val / ((1 + discount_rate) ** (i + 1)) for i, val in enumerate(projected)]\<close>\<close>

definition eps_discounted :: "real list \<Rightarrow> real \<Rightarrow> py_error + real list" where
  "eps_discounted projected discount_rate =
     map_result (\<lambda>(i, val). py_div val ((1 + discount_rate) ^ (i + 1)))
       (enumerate 0 projected)"

text \<open>\<^verbatim>\<open>terminal = projected[-1] * (1 + TERMINAL_GROWTH_RATE) / (discount_rate - TERMINAL_GROWTH_RATE)\<close>\<close>

definition eps_terminal :: "real list \<Rightarrow> real \<Rightarrow> py_error + real" where
  "eps_terminal projected discount_rate =
     py_bind (py_last projected) (\<lambda>last_projected.
       py_div (last_projected * (1 + TERMINAL_GROWTH_RATE))
              (discount_rate - TERMINAL_GROWTH_RATE))"

text \<open>\<^verbatim>\<open>discounted_terminal = terminal / ((1 + discount_rate) ** FORECAST_YEARS)\<close>\<close>

definition eps_discounted_terminal :: "real \<Rightarrow> real \<Rightarrow> py_error + real" where
  "eps_discounted_terminal terminal discount_rate =
     py_div terminal ((1 + discount_rate) ^ FORECAST_YEARS)"

text \<open>The naive intrinsic value and the cap:
  \<^verbatim>\<open>intrinsic = sum(discounted) + discounted_terminal\<close>,
  \<^verbatim>\<open>if discounted_terminal / intrinsic > 0.6:\<close>
  \<^verbatim>\<open>capped_terminal = 0.6 * intrinsic\<close>,
  \<^verbatim>\<open>intrinsic = sum(discounted) + capped_terminal\<close>.
  The result is the final \<open>intrinsic\<close> (before rounding) and \<open>capped_terminal\<close> when the
  branch assigns it.\<close>

definition eps_cap :: "real list \<Rightarrow> real \<Rightarrow> py_error + (real \<times> real option)" where
  "eps_cap discounted discounted_terminal =
     (let intrinsic = sum_list discounted + discounted_terminal
      in py_bind (py_div discounted_terminal intrinsic) (\<lambda>ratio.
           if 6 / 10 < ratio
           then (let capped_terminal = 6 / 10 * intrinsic;
                     intrinsic = sum_list discounted + capped_terminal
                 in Inr (intrinsic, Some capped_terminal))
           else Inr (intrinsic, None)))"

text \<open>Everything after the projection, up to \<^verbatim>\<open>return round(intrinsic, 2)\<close>.\<close>

definition eps_value :: "real list \<Rightarrow> real \<Rightarrow> py_error + real" where
  "eps_value projected discount_rate =
     py_bind (eps_discounted projected discount_rate) (\<lambda>discounted.
     py_bind (eps_terminal projected discount_rate) (\<lambda>terminal.
     py_bind (eps_discounted_terminal terminal discount_rate) (\<lambda>discounted_terminal.
     py_bind (eps_cap discounted discounted_terminal) (\<lambda>(intrinsic, capped).
     Inr (py_round intrinsic 2)))))"

definition calculate_eps_valuation ::
  "stock_info \<Rightarrow> real \<Rightarrow> real \<Rightarrow> py_error + (real option \<times> ui_msg list)" where
  "calculate_eps_valuation stock discount_rate growth_rate =
     try_except
       (let (eps, source) = get_eps stock
        in case eps of
             None \<Rightarrow> Inr (None, [Warning_EPS_unavailable])
           | Some e \<Rightarrow>
               if e \<le> 0 then Inr (None, [Warning_EPS_unavailable])
               else py_bind (eps_projected e growth_rate) (\<lambda>projected.
                    py_bind (eps_value projected discount_rate) (\<lambda>v.
                    Inr (Some v, []))))
       (\<lambda>e. Inr (None, [Error_EPS_failed e]))"

section \<open>OCF-based valuation\<close>

text \<open>\<^verbatim>\<open>growth_1_5 = info.get("earningsQuarterlyGrowth", 0.10)\<close>\<close>

definition ocf_growth_1_5 :: "info_dict \<Rightarrow> pyval" where
  "ocf_growth_1_5 info = dict_get info ''earningsQuarterlyGrowth'' (PyNum (10 / 100))"

text \<open>The guard \<^verbatim>\<open>ocf is None or ocf <= 0 or shares is None or shares <= 0\<close>,
  evaluated left to right.\<close>

definition ocf_unavailable :: "pyval \<Rightarrow> pyval \<Rightarrow> py_error + bool" where
  "ocf_unavailable ocf shares =
     (if is_None ocf then Inr True
      else py_bind (py_le ocf 0) (\<lambda>ocf_nonpositive.
             if ocf_nonpositive then Inr True
             else if is_None shares then Inr True
             else py_le shares 0))"

text \<open>The loop over \<^verbatim>\<open>range(1, 21)\<close>, appending to the two lists.\<close>

fun ocf_loop ::
  "real \<Rightarrow> real \<Rightarrow> real \<Rightarrow> real \<Rightarrow> real \<Rightarrow> nat list \<Rightarrow> real list \<times> real list
     \<Rightarrow> py_error + (real list \<times> real list)" where
  "ocf_loop ocf growth_1_5 growth_6_10 growth_11_20 discount_rate []
       (projected_ocf, discounted_ocf) = Inr (projected_ocf, discounted_ocf)"
| "ocf_loop ocf growth_1_5 growth_6_10 growth_11_20 discount_rate (year # years)
       (projected_ocf, discounted_ocf) =
     (let growth = (if year \<le> 5 then growth_1_5
                    else if year \<le> 10 then growth_6_10
                    else growth_11_20);
          projected = ocf * (1 + growth) ^ year
      in py_bind (py_div 1 ((1 + discount_rate) ^ year)) (\<lambda>discount_factor.
           let discounted = projected * discount_factor
           in ocf_loop ocf growth_1_5 growth_6_10 growth_11_20 discount_rate years
                (projected_ocf @ [projected], discounted_ocf @ [discounted])))"

type_synonym ocf_result = "(real \<times> real list \<times> real list) option"

text \<open>The body of the \<^verbatim>\<open>try\<close> once \<^verbatim>\<open>stock.info\<close> is there. \<open>None\<close> is the
  return \<^verbatim>\<open>None, None, None\<close>.\<close>

definition ocf_body :: "info_dict \<Rightarrow> real \<Rightarrow> py_error + ocf_result" where
  "ocf_body info discount_rate =
     (let growth_1_5 = ocf_growth_1_5 info
      in py_bind (py_truediv growth_1_5 (PyNum 2)) (\<lambda>growth_6_10.
         let growth_11_20 = TERMINAL_GROWTH_RATE;
             ocf = dict_get info ''operatingCashflow'' PyNone;
             shares = dict_get info ''sharesOutstanding'' PyNone
         in py_bind (ocf_unavailable ocf shares) (\<lambda>unavailable.
            if unavailable then Inr None
            else
              py_bind (num_of ocf) (\<lambda>ocf_n.
              py_bind (num_of growth_1_5) (\<lambda>growth_1_5_n.
              py_bind (ocf_loop ocf_n growth_1_5_n growth_6_10 growth_11_20 discount_rate
                         [1..<21] ([], [])) (\<lambda>(projected_ocf, discounted_ocf).
              let total_value = sum_list discounted_ocf
              in py_bind (py_truediv (PyNum total_value) shares) (\<lambda>intrinsic_per_share.
                 let cash = dict_get info ''cash'' (PyNum 0);
                     short_term_investments = dict_get info ''shortTermInvestments'' (PyNum 0);
                     short_term_debt = dict_get info ''shortTermDebt'' (PyNum 0);
                     long_term_debt = dict_get info ''longTermDebt'' (PyNum 0)
                 in py_bind (py_add cash short_term_investments) (\<lambda>cash_total.
                    py_bind (py_truediv cash_total shares) (\<lambda>cash_per_share.
                    py_bind (py_add short_term_debt long_term_debt) (\<lambda>debt_total.
                    py_bind (py_truediv debt_total shares) (\<lambda>debt_per_share.
                    let final_value = intrinsic_per_share + cash_per_share - debt_per_share
                    in Inr (Some (py_round final_value 2, projected_ocf, discounted_ocf)))))))))))))"

definition calculate_ocf_based_intrinsic_value ::
  "stock_info \<Rightarrow> real \<Rightarrow> py_error + (ocf_result \<times> ui_msg list)" where
  "calculate_ocf_based_intrinsic_value stock discount_rate =
     try_except
       (py_bind stock (\<lambda>info.
        py_bind (ocf_body info discount_rate) (\<lambda>result. Inr (result, []))))
       (\<lambda>e. Inr (None, [Error_OCF_failed e]))"

section \<open>Basic facts about the operators\<close>

lemma py_bind_Inl: "py_bind (Inl e) f = Inl e"
  by (simp add: py_bind_def)

lemma py_bind_Inr: "py_bind (Inr v) f = f v"
  by (simp add: py_bind_def)

lemma try_except_Inl: "try_except (Inl e) h = h e"
  by (simp add: try_except_def)

lemma try_except_Inr: "try_except (Inr v) h = Inr v"
  by (simp add: try_except_def)

lemma map_result_all_Inr:
  "(\<And>x. x \<in> set xs \<Longrightarrow> f x = Inr (g x)) \<Longrightarrow> map_result f xs = Inr (map g xs)"
  by (induction xs) simp_all

lemma map_result_first_Inl:
  "(\<And>x. x \<in> set xs \<Longrightarrow> f x = Inr (g x)) \<Longrightarrow> f y = Inl e
     \<Longrightarrow> map_result f (xs @ y # ys) = Inl e"
  by (induction xs) simp_all

lemma try_except_caught:
  "\<exists>result msgs. try_except body (\<lambda>e. Inr (None, [h e])) = Inr (result, msgs)"
  by (cases body) (auto simp: try_except_def)

lemma py_bind_eq_Inr: "py_bind m f = Inr y \<longleftrightarrow> (\<exists>v. m = Inr v \<and> f v = Inr y)"
  by (cases m) (simp_all add: py_bind_def)

lemma num_of_eq_Inr: "num_of v = Inr x \<longleftrightarrow> v = PyNum x"
  by (cases v) (simp_all add: num_of_def)

lemma py_truediv_eq_Inr:
  "py_truediv a b = Inr q \<longleftrightarrow> (\<exists>x y. a = PyNum x \<and> b = PyNum y \<and> y \<noteq> 0 \<and> q = x / y)"
  by (auto simp: py_truediv_def py_bind_eq_Inr num_of_eq_Inr py_div_def)

lemma py_add_eq_Inr_num:
  "py_add a b = Inr (PyNum z) \<longleftrightarrow> (\<exists>x y. a = PyNum x \<and> b = PyNum y \<and> z = x + y)"
  by (cases a; cases b) auto

lemma ocf_unavailable_False:
  "ocf_unavailable ocf shares = Inr False \<longleftrightarrow>
     (\<exists>x y. ocf = PyNum x \<and> 0 < x \<and> shares = PyNum y \<and> 0 < y)"
  by (cases ocf; cases shares)
     (auto simp: ocf_unavailable_def is_None_def py_le_def py_bind_def)

lemma dict_get_PyNone_eq_PyNum:
  "dict_get info k PyNone = PyNum x \<longleftrightarrow> info k = Some (PyNum x)"
  by (simp add: dict_get_def split: option.splits)

section \<open>The getters\<close>

lemma get_eps_positive:
  "info ''trailingEps'' = Some (PyNum e) \<Longrightarrow> 0 < e
     \<Longrightarrow> get_eps (Inr info) = (Some e, ''Yahoo Finance'')"
  by (simp add: get_eps_def py_bind_def dict_get_def py_truthy_def py_gt_def num_of_def)

lemma get_growth_rate_positive:
  "info ''earningsQuarterlyGrowth'' = Some (PyNum g) \<Longrightarrow> 0 < g
     \<Longrightarrow> get_growth_rate (Inr info) = (g, ''Yahoo Finance'')"
  by (simp add: get_growth_rate_def py_bind_def dict_get_def py_truthy_def py_gt_def num_of_def)

lemma get_growth_rate_default:
  assumes "\<not> (\<exists>info g. stock = Inr info \<and> info ''earningsQuarterlyGrowth'' = Some (PyNum g) \<and> 0 < g)"
  shows "get_growth_rate stock = (10 / 100, ''Default'')"
proof (cases stock)
  case (Inl e)
  then show ?thesis by (simp add: get_growth_rate_def py_bind_def)
next
  case (Inr info)
  show ?thesis
  proof (cases "info ''earningsQuarterlyGrowth''")
    case None
    with Inr show ?thesis
      by (simp add: get_growth_rate_def py_bind_def dict_get_def py_truthy_def)
  next
    case (Some v)
    with Inr assms show ?thesis
      by (cases v)
         (auto simp: get_growth_rate_def py_bind_def dict_get_def py_truthy_def py_gt_def
            num_of_def Let_def)
  qed
qed

lemma get_beta_positive:
  "info ''beta'' = Some (PyNum b) \<Longrightarrow> 0 < b \<Longrightarrow> get_beta (Inr info) = b"
  by (simp add: get_beta_def py_bind_def dict_get_def py_truthy_def py_gt_def num_of_def)

lemma get_beta_default:
  assumes "\<not> (\<exists>info b. stock = Inr info \<and> info ''beta'' = Some (PyNum b) \<and> 0 < b)"
  shows "get_beta stock = 1"
proof (cases stock)
  case (Inl e)
  then show ?thesis by (simp add: get_beta_def py_bind_def)
next
  case (Inr info)
  show ?thesis
  proof (cases "info ''beta''")
    case None
    with Inr show ?thesis
      by (simp add: get_beta_def py_bind_def dict_get_def py_truthy_def)
  next
    case (Some v)
    with Inr assms show ?thesis
      by (cases v)
         (auto simp: get_beta_def py_bind_def dict_get_def py_truthy_def py_gt_def num_of_def
            Let_def)
  qed
qed

section \<open>The projection of the EPS variant\<close>

lemma range_20_split: "[0..<20] = [0, 1, 2, 3, 4] @ 5 # [6..<20]"
  by (simp add: upt_rec)

text \<open>The comprehension reads \<open>growths[5]\<close> on its sixth element, whatever the inputs.\<close>

lemma eps_projected_raises: "eps_projected eps growth_rate = Inl IndexError"
proof -
  let ?f = "\<lambda>i. py_bind (list_get (growths growth_rate) i)
                 (\<lambda>g. Inr (eps * (1 + g) ^ (i + 1)))"
  have ok: "\<And>i. i \<in> set [0, 1, 2, 3, 4::nat]
              \<Longrightarrow> ?f i = Inr (eps * (1 + growths growth_rate ! i) ^ (i + 1))"
    by (auto simp: list_get_def growths_def py_bind_Inr)
  have bad: "?f 5 = Inl IndexError"
    by (simp add: list_get_def growths_def py_bind_Inl)
  show ?thesis
    unfolding eps_projected_def FORECAST_YEARS_def range_20_split
    by (rule map_result_first_Inl
          [where f = ?f and g = "\<lambda>i. eps * (1 + growths growth_rate ! i) ^ (i + 1)", OF ok bad])
qed

text \<open>So a call with a positive EPS always ends in the handler.\<close>

lemma calculate_eps_valuation_positive_eps:
  assumes "info ''trailingEps'' = Some (PyNum e)" "0 < e"
  shows "calculate_eps_valuation (Inr info) discount_rate growth_rate =
           Inr (None, [Error_EPS_failed IndexError])"
  using assms(2)
  by (simp add: calculate_eps_valuation_def get_eps_positive [where info = info, OF assms]
        eps_projected_raises py_bind_Inl try_except_Inl)

text \<open>No call of the EPS variant returns a value.\<close>

lemma calculate_eps_valuation_no_value:
  "calculate_eps_valuation stock discount_rate growth_rate \<noteq> Inr (Some v, msgs)"
proof (cases "get_eps stock")
  case (Pair eps source)
  show ?thesis
  proof (cases eps)
    case None
    with Pair show ?thesis
      by (simp add: calculate_eps_valuation_def try_except_Inr)
  next
    case (Some e)
    with Pair show ?thesis
      by (simp add: calculate_eps_valuation_def try_except_Inr try_except_Inl
            eps_projected_raises py_bind_Inl)
  qed
qed

section \<open>The steps of the EPS variant after the projection\<close>

lemma eps_discounted_closed_form:
  assumes "1 + r \<noteq> 0"
  shows "eps_discounted projected r =
           Inr (map (\<lambda>(i, val). val / (1 + r) ^ (i + 1)) (enumerate 0 projected))"
  unfolding eps_discounted_def
  by (rule map_result_all_Inr) (use assms in \<open>auto simp: py_div_def\<close>)

lemma last_enumerate:
  "xs \<noteq> [] \<Longrightarrow> last (enumerate 0 xs) = (length xs - 1, last xs)"
  by (induction xs rule: rev_induct) (simp_all add: enumerate_append_eq)

text \<open>The cap as lines 88 to 92 compute it, for any discounted list and discounted
  terminal value: one pass on the naive value.\<close>

lemma eps_cap_single_pass:
  assumes "6 / 10 < discounted_terminal / (sum_list discounted + discounted_terminal)"
  shows "let naive = sum_list discounted + discounted_terminal;
             capped_terminal = 6 / 10 * naive;
             intrinsic = sum_list discounted + capped_terminal
         in eps_cap discounted discounted_terminal = Inr (intrinsic, Some capped_terminal)"
proof -
  from assms have "sum_list discounted + discounted_terminal \<noteq> 0" by auto
  with assms show ?thesis
    by (simp add: eps_cap_def py_div_def py_bind_def Let_def)
qed

lemma eps_cap_never_fixed_point:
  assumes "eps_cap discounted discounted_terminal = Inr (intrinsic, Some capped_terminal)"
  shows "capped_terminal \<noteq> 6 / 10 * intrinsic"
proof
  assume eq: "capped_terminal = 6 / 10 * intrinsic"
  let ?n = "sum_list discounted + discounted_terminal"
  from assms have n: "?n \<noteq> 0" and ratio: "6 / 10 < discounted_terminal / ?n"
    and c: "capped_terminal = 6 / 10 * ?n" and i: "intrinsic = sum_list discounted + capped_terminal"
    by (auto simp: eps_cap_def py_div_def py_bind_def Let_def split: if_splits)
  from eq c i have "discounted_terminal = 6 / 10 * ?n" by (simp add: algebra_simps)
  then have "discounted_terminal / ?n = 6 / 10" using n by (simp add: field_simps)
  with ratio show False by simp
qed

section \<open>The loop and the body of the OCF variant\<close>

lemma ocf_loop_closed_form:
  assumes "1 + r \<noteq> 0"
  shows "ocf_loop ocf g1 g2 g3 r years (p, d) =
           Inr (p @ map (\<lambda>t. ocf * (1 + (if t \<le> 5 then g1 else if t \<le> 10 then g2 else g3)) ^ t) years,
                d @ map (\<lambda>t. ocf * (1 + (if t \<le> 5 then g1 else if t \<le> 10 then g2 else g3)) ^ t
                              * (1 / (1 + r) ^ t)) years)"
  using assms
  by (induction years arbitrary: p d) (simp_all add: py_div_def py_bind_Inr Let_def)

lemma ocf_body_valid:
  assumes ocf: "info ''operatingCashflow'' = Some (PyNum ocf)" "0 < ocf"
    and shares: "info ''sharesOutstanding'' = Some (PyNum shares)" "0 < shares"
    and growth: "ocf_growth_1_5 info = PyNum g"
    and cash: "dict_get info ''cash'' (PyNum 0) = PyNum cash"
    and sti: "dict_get info ''shortTermInvestments'' (PyNum 0) = PyNum short_term_investments"
    and std: "dict_get info ''shortTermDebt'' (PyNum 0) = PyNum short_term_debt"
    and ltd: "dict_get info ''longTermDebt'' (PyNum 0) = PyNum long_term_debt"
    and r: "1 + r \<noteq> 0"
  shows "ocf_body info r =
    Inr (Some
      (py_round
         (sum_list (map (\<lambda>t. ocf * (1 + (if t \<le> 5 then g else if t \<le> 10 then g / 2
                                           else TERMINAL_GROWTH_RATE)) ^ t
                              * (1 / (1 + r) ^ t)) [1..<21]) / shares
          + (cash + short_term_investments) / shares
          - (short_term_debt + long_term_debt) / shares) 2,
       map (\<lambda>t. ocf * (1 + (if t \<le> 5 then g else if t \<le> 10 then g / 2
                                else TERMINAL_GROWTH_RATE)) ^ t) [1..<21],
       map (\<lambda>t. ocf * (1 + (if t \<le> 5 then g else if t \<le> 10 then g / 2
                                else TERMINAL_GROWTH_RATE)) ^ t
                   * (1 / (1 + r) ^ t)) [1..<21]))"
proof -
  have o: "dict_get info ''operatingCashflow'' PyNone = PyNum ocf"
    and s: "dict_get info ''sharesOutstanding'' PyNone = PyNum shares"
    using ocf shares by (simp_all add: dict_get_def)
  have guard: "ocf_unavailable (PyNum ocf) (PyNum shares) = Inr False"
    using ocf shares by (simp add: ocf_unavailable_def is_None_def py_le_def py_bind_Inr)
  show ?thesis
    unfolding ocf_body_def Let_def growth o s cash sti std ltd
    using shares(2)
    by (simp add: py_truediv_def num_of_def py_div_def py_bind_Inr guard
          ocf_loop_closed_form [OF r] del: upt_Suc)
qed

text \<open>Conversely, the body returns a value only on such inputs: each field it does arithmetic
  on is a number, the base and the share count are positive, and the discount factor exists.\<close>

lemma ocf_loop_needs_discount_factor:
  assumes "ocf_loop ocf g1 g2 g3 r (Suc n # years) (p, d) = Inr res"
  shows "1 + r \<noteq> 0"
proof
  assume "1 + r = 0"
  then have "py_div 1 ((1 + r) ^ Suc n) = Inl ZeroDivisionError"
    by (simp add: py_div_def)
  with assms show False
    by (simp add: py_bind_Inl Let_def del: power_Suc)
qed

lemma range_1_21: "[1..<21] = Suc 0 # [2..<21]"
  by (simp add: upt_rec)



lemma ocf_body_Some_D:
  assumes "ocf_body info r = Inr (Some res)"
  shows "(\<exists>ocf. info ''operatingCashflow'' = Some (PyNum ocf) \<and> 0 < ocf)
       \<and> (\<exists>shares. info ''sharesOutstanding'' = Some (PyNum shares) \<and> 0 < shares)
       \<and> (\<exists>g. ocf_growth_1_5 info = PyNum g)
       \<and> (\<exists>c. dict_get info ''cash'' (PyNum 0) = PyNum c)
       \<and> (\<exists>c. dict_get info ''shortTermInvestments'' (PyNum 0) = PyNum c)
       \<and> (\<exists>c. dict_get info ''shortTermDebt'' (PyNum 0) = PyNum c)
       \<and> (\<exists>c. dict_get info ''longTermDebt'' (PyNum 0) = PyNum c)
       \<and> 1 + r \<noteq> 0"
proof -
  let ?ocf = "dict_get info ''operatingCashflow'' PyNone"
  let ?shares = "dict_get info ''sharesOutstanding'' PyNone"
  let ?cash = "dict_get info ''cash'' (PyNum 0)"
  let ?sti = "dict_get info ''shortTermInvestments'' (PyNum 0)"
  let ?std = "dict_get info ''shortTermDebt'' (PyNum 0)"
  let ?ltd = "dict_get info ''longTermDebt'' (PyNum 0)"
  from assms obtain g610 unavailable where
    g610: "py_truediv (ocf_growth_1_5 info) (PyNum 2) = Inr g610"
    and un: "ocf_unavailable ?ocf ?shares = Inr unavailable"
    and rest1: "(if unavailable then Inr None
       else
              py_bind (num_of ?ocf) (\<lambda>ocf_n.
              py_bind (num_of (ocf_growth_1_5 info)) (\<lambda>growth_1_5_n.
              py_bind (ocf_loop ocf_n growth_1_5_n g610 TERMINAL_GROWTH_RATE r
                         [1..<21] ([], [])) (\<lambda>(projected_ocf, discounted_ocf).
              py_bind (py_truediv (PyNum (sum_list discounted_ocf)) ?shares) (\<lambda>intrinsic_per_share.
                    py_bind (py_add ?cash ?sti) (\<lambda>cash_total.
                    py_bind (py_truediv cash_total ?shares) (\<lambda>cash_per_share.
                    py_bind (py_add ?std ?ltd) (\<lambda>debt_total.
                    py_bind (py_truediv debt_total ?shares) (\<lambda>debt_per_share.
                    Inr (Some (py_round (intrinsic_per_share + cash_per_share - debt_per_share) 2,
                          projected_ocf, discounted_ocf))))))))))) = Inr (Some res)"
    unfolding ocf_body_def Let_def py_bind_eq_Inr by blast
  from rest1 have nun: "\<not> unavailable" by (auto split: if_splits)
  with un have "ocf_unavailable ?ocf ?shares = Inr False" by simp
  then obtain x y where x: "?ocf = PyNum x" "0 < x" and y: "?shares = PyNum y" "0 < y"
    unfolding ocf_unavailable_False by blast
  from g610 obtain g where g: "ocf_growth_1_5 info = PyNum g"
    unfolding py_truediv_eq_Inr by blast
  from rest1 nun obtain p d ct q2 dt q3 where
    loop: "ocf_loop x g g610 TERMINAL_GROWTH_RATE r [1..<21] ([], []) = Inr (p, d)"
    and ct: "py_add ?cash ?sti = Inr ct" and q2: "py_truediv ct ?shares = Inr q2"
    and dt: "py_add ?std ?ltd = Inr dt" and q3: "py_truediv dt ?shares = Inr q3"
    unfolding x y g by (auto simp: py_bind_eq_Inr num_of_eq_Inr)
  from loop have r: "1 + r \<noteq> 0"
    unfolding range_1_21 by (rule ocf_loop_needs_discount_factor)
  from q2 obtain c where "ct = PyNum c" unfolding py_truediv_eq_Inr by blast
  with ct have cash: "\<exists>c. ?cash = PyNum c" "\<exists>c. ?sti = PyNum c"
    by (auto simp: py_add_eq_Inr_num)
  from q3 obtain c' where "dt = PyNum c'" unfolding py_truediv_eq_Inr by blast
  with dt have debt: "\<exists>c. ?std = PyNum c" "\<exists>c. ?ltd = PyNum c"
    by (auto simp: py_add_eq_Inr_num)
  from x y have "info ''operatingCashflow'' = Some (PyNum x)"
    "info ''sharesOutstanding'' = Some (PyNum y)"
    by (simp_all add: dict_get_PyNone_eq_PyNum)
  with x(2) y(2) g cash debt r show ?thesis by blast
qed


lemma calculate_ocf_cases:
  "calculate_ocf_based_intrinsic_value (Inr info) r =
     (case ocf_body info r of
        Inl e \<Rightarrow> Inr (None, [Error_OCF_failed e])
      | Inr res \<Rightarrow> Inr (res, []))"
  by (cases "ocf_body info r")
     (simp_all add: calculate_ocf_based_intrinsic_value_def py_bind_def try_except_def)

lemma calculate_ocf_no_result:
  assumes "\<And>res. ocf_body info r \<noteq> Inr (Some res)"
  shows "\<exists>msgs. calculate_ocf_based_intrinsic_value (Inr info) r = Inr (None, msgs)"
proof (cases "ocf_body info r")
  case (Inl e)
  then show ?thesis by (simp add: calculate_ocf_cases)
next
  case (Inr res)
  with assms have "res = None" by (cases res) auto
  with Inr show ?thesis by (simp add: calculate_ocf_cases)
qed


section \<open>Claims about the OCF-based valuation\<close>

text \<open>
  C5. In the OCF-based variant, for a strictly positive OCF base and strictly positive
  shares outstanding, with near-term growth rate \<open>g\<close> (the provider's quarterly earnings
  growth, or 0.10 when the key is absent), numeric balance-sheet fields (0 when a key is
  absent) and a discount rate \<open>r\<close> for which \<open>(1+r)^-t\<close> is defined: year \<open>t\<close> of 1..20
  uses growth \<open>g\<close> for \<open>t \<le> 5\<close>, \<open>g/2\<close> for \<open>6 \<le> t \<le> 10\<close> and 0.04 for
  \<open>11 \<le> t \<le> 20\<close>; its projected value is \<open>ocf * (1 + growth t)^t\<close>; its discounted
  value is the projected value times \<open>(1+r)^-t\<close>; and the value returned is
  \<open>sum(discounted)/shares + (cash + shortTermInvestments)/shares
   - (shortTermDebt + longTermDebt)/shares\<close> rounded to 2 decimal places, with no message
  shown.
\<close>

theorem ocf_valuation_formula:
  assumes "info ''operatingCashflow'' = Some (PyNum ocf)" and "0 < ocf"
    and "info ''sharesOutstanding'' = Some (PyNum shares)" and "0 < shares"
    and "dict_get info ''earningsQuarterlyGrowth'' (PyNum (10 / 100)) = PyNum g"
    and "dict_get info ''cash'' (PyNum 0) = PyNum cash"
    and "dict_get info ''shortTermInvestments'' (PyNum 0) = PyNum short_term_investments"
    and "dict_get info ''shortTermDebt'' (PyNum 0) = PyNum short_term_debt"
    and "dict_get info ''longTermDebt'' (PyNum 0) = PyNum long_term_debt"
    and "1 + r \<noteq> 0"
  shows "let growth = (\<lambda>t::nat. if t \<le> 5 then g else if t \<le> 10 then g / 2 else 4 / 100);
             projected = (\<lambda>t. ocf * (1 + growth t) ^ t);
             discounted = (\<lambda>t. projected t * (1 + r) powi (- int t))
         in calculate_ocf_based_intrinsic_value (Inr info) r =
              Inr (Some (py_round (sum_list (map discounted [1..<21]) / shares
                                     + (cash + short_term_investments) / shares
                                     - (short_term_debt + long_term_debt) / shares) 2,
                         map projected [1..<21],
                         map discounted [1..<21]),
                   [])"
proof -
  have pw: "\<And>t::nat. (1 + r) powi (- int t) = 1 / (1 + r) ^ t"
    by (simp add: power_int_minus field_simps)
  have g: "ocf_growth_1_5 info = PyNum g"
    using assms(5) by (simp add: ocf_growth_1_5_def)
  show ?thesis
    unfolding Let_def calculate_ocf_based_intrinsic_value_def py_bind_Inr pw
      ocf_body_valid [OF assms(1-4) g assms(6-10)] try_except_Inr TERMINAL_GROWTH_RATE_def
    by (rule refl)
qed

theorem ocf_valuation_formula_witness:
  "let info = [''operatingCashflow'' \<mapsto> PyNum 100, ''sharesOutstanding'' \<mapsto> PyNum 10,
               ''cash'' \<mapsto> PyNum 30, ''longTermDebt'' \<mapsto> PyNum 20];
       growth = (\<lambda>t::nat. if t \<le> 5 then 10 / 100 else if t \<le> 10 then (10 / 100) / 2
                          else 4 / 100);
       projected = (\<lambda>t. 100 * (1 + growth t) ^ t);
       discounted = (\<lambda>t. projected t * (1 + 8 / 100) powi (- int t))
   in calculate_ocf_based_intrinsic_value (Inr info) (8 / 100) =
        Inr (Some (py_round (sum_list (map discounted [1..<21]) / 10
                               + (30 + 0) / 10 - (0 + 20) / 10) 2,
                   map projected [1..<21],
                   map discounted [1..<21]),
             [])"
proof -
  let ?info = "[''operatingCashflow'' \<mapsto> PyNum 100, ''sharesOutstanding'' \<mapsto> PyNum 10,
               ''cash'' \<mapsto> PyNum 30, ''longTermDebt'' \<mapsto> PyNum 20]"
  have h1: "?info ''operatingCashflow'' = Some (PyNum 100)" by simp
  have h2: "(0::real) < 100" by simp
  have h3: "?info ''sharesOutstanding'' = Some (PyNum 10)" by simp
  have h4: "(0::real) < 10" by simp
  have h5: "dict_get ?info ''earningsQuarterlyGrowth'' (PyNum (10 / 100)) = PyNum (10 / 100)"
    by (simp add: dict_get_def)
  have h6: "dict_get ?info ''cash'' (PyNum 0) = PyNum 30" by (simp add: dict_get_def)
  have h7: "dict_get ?info ''shortTermInvestments'' (PyNum 0) = PyNum 0"
    by (simp add: dict_get_def)
  have h8: "dict_get ?info ''shortTermDebt'' (PyNum 0) = PyNum 0" by (simp add: dict_get_def)
  have h9: "dict_get ?info ''longTermDebt'' (PyNum 0) = PyNum 20" by (simp add: dict_get_def)
  have h10: "1 + (8 / 100 :: real) \<noteq> 0" by simp
  show ?thesis
    using ocf_valuation_formula [OF h1 h2 h3 h4 h5 h6 h7 h8 h9 h10]
    unfolding Let_def .
qed

text \<open>
  C6. In the OCF-based variant, whenever shares outstanding is absent (no key, or
  \<^verbatim>\<open>None\<close>) or non-positive, or the OCF base is absent or non-positive, the valuation
  returns no result: the call returns normally with \<^verbatim>\<open>None\<close>, and no division by
  zero reaches the caller.
\<close>

theorem ocf_missing_base_or_shares_no_result:
  assumes "info ''operatingCashflow'' = None \<or> info ''operatingCashflow'' = Some PyNone
           \<or> (\<exists>x. info ''operatingCashflow'' = Some (PyNum x) \<and> x \<le> 0)
           \<or> info ''sharesOutstanding'' = None \<or> info ''sharesOutstanding'' = Some PyNone
           \<or> (\<exists>x. info ''sharesOutstanding'' = Some (PyNum x) \<and> x \<le> 0)"
  shows "\<exists>msgs. calculate_ocf_based_intrinsic_value (Inr info) r = Inr (None, msgs)"
proof (rule calculate_ocf_no_result)
  fix res
  show "ocf_body info r \<noteq> Inr (Some res)"
  proof
    assume "ocf_body info r = Inr (Some res)"
    from ocf_body_Some_D [OF this] obtain x y where
      "info ''operatingCashflow'' = Some (PyNum x)" "0 < x"
      "info ''sharesOutstanding'' = Some (PyNum y)" "0 < y"
      by blast
    with assms show False by auto
  qed
qed

theorem ocf_missing_base_or_shares_no_result_witness:
  "[''operatingCashflow'' \<mapsto> PyNum 100] ''sharesOutstanding'' = None
   \<and> (\<exists>msgs. calculate_ocf_based_intrinsic_value
                 (Inr [''operatingCashflow'' \<mapsto> PyNum 100]) (8 / 100) = Inr (None, msgs))"
proof -
  let ?info = "[''operatingCashflow'' \<mapsto> PyNum 100]"
  have h: "?info ''sharesOutstanding'' = None" by simp
  then have "?info ''operatingCashflow'' = None \<or> ?info ''operatingCashflow'' = Some PyNone
           \<or> (\<exists>x. ?info ''operatingCashflow'' = Some (PyNum x) \<and> x \<le> 0)
           \<or> ?info ''sharesOutstanding'' = None \<or> ?info ''sharesOutstanding'' = Some PyNone
           \<or> (\<exists>x. ?info ''sharesOutstanding'' = Some (PyNum x) \<and> x \<le> 0)"
    by blast
  from h ocf_missing_base_or_shares_no_result [OF this] show ?thesis by blast
qed

text \<open>
  C10. In the OCF-based variant the zero defaults of \<open>cash\<close>, \<open>shortTermInvestments\<close>,
  \<open>shortTermDebt\<close> and \<open>longTermDebt\<close> apply only to an absent key: when one of these
  keys is present with the value \<^verbatim>\<open>None\<close>, the valuation returns no result, whatever
  the other fields are (also with a valid positive OCF and share count).
\<close>

theorem ocf_null_balance_field_no_result:
  assumes "k \<in> {''cash'', ''shortTermInvestments'', ''shortTermDebt'', ''longTermDebt''}"
    and "info k = Some PyNone"
  shows "\<exists>msgs. calculate_ocf_based_intrinsic_value (Inr info) r = Inr (None, msgs)"
proof (rule calculate_ocf_no_result)
  fix res
  show "ocf_body info r \<noteq> Inr (Some res)"
  proof
    assume "ocf_body info r = Inr (Some res)"
    from ocf_body_Some_D [OF this] have
      "\<exists>c. dict_get info ''cash'' (PyNum 0) = PyNum c"
      "\<exists>c. dict_get info ''shortTermInvestments'' (PyNum 0) = PyNum c"
      "\<exists>c. dict_get info ''shortTermDebt'' (PyNum 0) = PyNum c"
      "\<exists>c. dict_get info ''longTermDebt'' (PyNum 0) = PyNum c"
      by blast+
    moreover have "dict_get info k (PyNum 0) = PyNone"
      using assms(2) by (simp add: dict_get_def)
    ultimately show False using assms(1) by auto
  qed
qed


theorem ocf_null_balance_field_no_result_witness:
  "''cash'' \<in> {''cash'', ''shortTermInvestments'', ''shortTermDebt'', ''longTermDebt''}
   \<and> [''operatingCashflow'' \<mapsto> PyNum 100, ''sharesOutstanding'' \<mapsto> PyNum 10,
       ''cash'' \<mapsto> PyNone] ''cash'' = Some PyNone
   \<and> (\<exists>msgs. calculate_ocf_based_intrinsic_value
                 (Inr [''operatingCashflow'' \<mapsto> PyNum 100, ''sharesOutstanding'' \<mapsto> PyNum 10,
                       ''cash'' \<mapsto> PyNone]) (8 / 100) = Inr (None, msgs))"
proof -
  let ?info = "[''operatingCashflow'' \<mapsto> PyNum 100, ''sharesOutstanding'' \<mapsto> PyNum 10,
       ''cash'' \<mapsto> PyNone]"
  have h1: "''cash'' \<in> {''cash'', ''shortTermInvestments'', ''shortTermDebt'', ''longTermDebt''}"
    by simp
  have h2: "?info ''cash'' = Some PyNone" by simp
  from h1 h2 ocf_null_balance_field_no_result [where k = "''cash''" and info = ?info, OF h1 h2]
  show ?thesis by blast
qed

text \<open>
  C3 (the OCF path diverges from the resolver). The resolver \<open>get_growth_rate\<close> returns
  the provider's quarterly earnings growth when it is a strictly positive number and
  0.10 with the tag \<open>Default\<close> otherwise. The OCF-based valuation does not go through it:
  it reads \<^verbatim>\<open>info.get("earningsQuarterlyGrowth", 0.10)\<close>, so a negative value is used as
  it is (the first projected year of a base of 100 at growth -0.5 is 50, not 110), and a
  \<^verbatim>\<open>None\<close> value makes the call fail with a \<^verbatim>\<open>TypeError\<close>.
\<close>

theorem ocf_growth_bypasses_resolver:
  "get_growth_rate (Inr [''operatingCashflow'' \<mapsto> PyNum 100, ''sharesOutstanding'' \<mapsto> PyNum 10,
                         ''earningsQuarterlyGrowth'' \<mapsto> PyNum (- (1 / 2))]) = (10 / 100, ''Default'')
   \<and> ocf_growth_1_5 [''operatingCashflow'' \<mapsto> PyNum 100, ''sharesOutstanding'' \<mapsto> PyNum 10,
                      ''earningsQuarterlyGrowth'' \<mapsto> PyNum (- (1 / 2))] = PyNum (- (1 / 2))
   \<and> map_option (hd \<circ> fst \<circ> snd)
        (fst (projr (calculate_ocf_based_intrinsic_value
           (Inr [''operatingCashflow'' \<mapsto> PyNum 100, ''sharesOutstanding'' \<mapsto> PyNum 10,
                 ''earningsQuarterlyGrowth'' \<mapsto> PyNum (- (1 / 2))]) (8 / 100)))) = Some 50
   \<and> get_growth_rate (Inr [''operatingCashflow'' \<mapsto> PyNum 100, ''sharesOutstanding'' \<mapsto> PyNum 10,
                           ''earningsQuarterlyGrowth'' \<mapsto> PyNone]) = (10 / 100, ''Default'')
   \<and> calculate_ocf_based_intrinsic_value
        (Inr [''operatingCashflow'' \<mapsto> PyNum 100, ''sharesOutstanding'' \<mapsto> PyNum 10,
              ''earningsQuarterlyGrowth'' \<mapsto> PyNone]) (8 / 100)
      = Inr (None, [Error_OCF_failed TypeError])"
proof -
  let ?neg = "[''operatingCashflow'' \<mapsto> PyNum 100, ''sharesOutstanding'' \<mapsto> PyNum 10,
               ''earningsQuarterlyGrowth'' \<mapsto> PyNum (- (1 / 2))]"
  let ?null = "[''operatingCashflow'' \<mapsto> PyNum 100, ''sharesOutstanding'' \<mapsto> PyNum 10,
               ''earningsQuarterlyGrowth'' \<mapsto> PyNone]"
  have a: "get_growth_rate (Inr ?neg) = (10 / 100, ''Default'')"
    by (rule get_growth_rate_default) auto
  have b: "ocf_growth_1_5 ?neg = PyNum (- (1 / 2))"
    by (simp add: ocf_growth_1_5_def dict_get_def)
  have body: "ocf_body ?neg (8 / 100) = Inr (Some
      (py_round
         (sum_list (map (\<lambda>t. 100 * (1 + (if t \<le> 5 then - (1 / 2) else if t \<le> 10 then - (1 / 2) / 2
                                           else TERMINAL_GROWTH_RATE)) ^ t
                              * (1 / (1 + 8 / 100) ^ t)) [1..<21]) / 10
          + (0 + 0) / 10
          - (0 + 0) / 10) 2,
       map (\<lambda>t. 100 * (1 + (if t \<le> 5 then - (1 / 2) else if t \<le> 10 then - (1 / 2) / 2
                                else TERMINAL_GROWTH_RATE)) ^ t) [1..<21],
       map (\<lambda>t. 100 * (1 + (if t \<le> 5 then - (1 / 2) else if t \<le> 10 then - (1 / 2) / 2
                                else TERMINAL_GROWTH_RATE)) ^ t
                   * (1 / (1 + 8 / 100) ^ t)) [1..<21]))"
    by (rule ocf_body_valid [where info = ?neg]) (simp_all add: dict_get_def b)
  have c: "map_option (hd \<circ> fst \<circ> snd)
        (fst (projr (calculate_ocf_based_intrinsic_value (Inr ?neg) (8 / 100)))) = Some 50"
    unfolding calculate_ocf_cases body range_1_21 by simp
  have d: "get_growth_rate (Inr ?null) = (10 / 100, ''Default'')"
    by (rule get_growth_rate_default) auto
  have "ocf_body ?null (8 / 100) = Inl TypeError"
    by (simp add: ocf_body_def ocf_growth_1_5_def dict_get_def py_truediv_def num_of_def
          py_bind_Inl)
  then have e: "calculate_ocf_based_intrinsic_value (Inr ?null) (8 / 100)
      = Inr (None, [Error_OCF_failed TypeError])"
    by (simp add: calculate_ocf_cases)
  from a b c d e show ?thesis by blast
qed

section \<open>Claims about the EPS-based valuation\<close>

text \<open>
  C1 (the projection of the EPS variant fails). The list \<open>growths\<close> has 5 entries and the
  comprehension indexes it with every \<open>i\<close> of \<^verbatim>\<open>range(20)\<close>: at \<open>i = 5\<close> the read
  is out of range, no projected list is produced, and a call with a positive EPS ends in
  the handler with no result.
\<close>

theorem eps_projection_index_out_of_range:
  "eps_projected 5 (10 / 100) = Inl IndexError
   \<and> calculate_eps_valuation (Inr [''trailingEps'' \<mapsto> PyNum 5]) (10 / 100) (10 / 100) =
       Inr (None, [Error_EPS_failed IndexError])"
proof
  show "eps_projected 5 (10 / 100) = Inl IndexError"
    by (rule eps_projected_raises)
  have "[''trailingEps'' \<mapsto> PyNum 5] ''trailingEps'' = Some (PyNum 5)" by simp
  then show "calculate_eps_valuation (Inr [''trailingEps'' \<mapsto> PyNum 5]) (10 / 100) (10 / 100) =
       Inr (None, [Error_EPS_failed IndexError])"
    by (rule calculate_eps_valuation_positive_eps [where info = "[''trailingEps'' \<mapsto> PyNum 5]"])
       simp
qed

text \<open>
  C2 (the cap of the EPS variant is never reached). The claim describes the intrinsic
  value a call returns when the terminal value dominates. No call returns one: with a
  positive EPS the projection raises before the terminal value, the naive intrinsic value
  and the cap are computed, and the handler returns no result, here at a discount rate
  of 0.05, one point above the terminal growth rate, where the terminal value would weigh
  most.
\<close>

theorem eps_cap_never_reached:
  "calculate_eps_valuation (Inr [''trailingEps'' \<mapsto> PyNum 5]) (5 / 100) (10 / 100) =
     Inr (None, [Error_EPS_failed IndexError])"
proof -
  have "[''trailingEps'' \<mapsto> PyNum 5] ''trailingEps'' = Some (PyNum 5)" by simp
  then show ?thesis
    by (rule calculate_eps_valuation_positive_eps [where info = "[''trailingEps'' \<mapsto> PyNum 5]"])
       simp
qed

text \<open>
  C7. In the EPS-based variant, for a last projected value \<open>V\<close> and a discount rate
  \<open>r > 0.04\<close>, the undiscounted terminal value is \<open>V * (1 + 0.04) / (r - 0.04)\<close>, and the
  discounted terminal value is that quantity times \<open>(1+r)^-20\<close>, the factor of the last
  row of a 20-year projection.
\<close>

theorem eps_terminal_value_formula:
  assumes "projected \<noteq> []" and "4 / 100 < r"
  shows "eps_terminal projected r = Inr (last projected * (1 + 4 / 100) / (r - 4 / 100))
       \<and> eps_discounted_terminal terminal r = Inr (terminal * (1 + r) powi (- 20))
       \<and> (length projected = 20 \<longrightarrow>
            (\<exists>discounted. eps_discounted projected r = Inr discounted
               \<and> last discounted = last projected * (1 + r) powi (- 20)))"
proof -
  from assms(2) have r: "1 + r \<noteq> 0" and d: "r - 4 / 100 \<noteq> 0" by simp_all
  have pw: "(1 + r) powi (- 20) = 1 / (1 + r) ^ 20"
    by (simp add: power_int_minus field_simps)
  from assms(1) have "py_last projected = Inr (last projected)"
    by (cases projected) (simp_all add: py_last_def)
  with d have t: "eps_terminal projected r = Inr (last projected * (1 + 4 / 100) / (r - 4 / 100))"
    by (simp add: eps_terminal_def py_bind_Inr py_div_def TERMINAL_GROWTH_RATE_def)
  from r have dt: "eps_discounted_terminal terminal r = Inr (terminal * (1 + r) powi (- 20))"
    by (simp add: eps_discounted_terminal_def py_div_def FORECAST_YEARS_def pw)
  have row: "last (map (\<lambda>(i, val). val / (1 + r) ^ (i + 1)) (enumerate 0 projected))
               = last projected * (1 + r) powi (- 20)" if len: "length projected = 20"
  proof -
    from assms(1) have ne: "enumerate 0 projected \<noteq> []"
      by (cases projected) simp_all
    have "last (map (\<lambda>(i, val). val / (1 + r) ^ (i + 1)) (enumerate 0 projected))
            = (\<lambda>(i, val). val / (1 + r) ^ (i + 1)) (last (enumerate 0 projected))"
      using ne by (rule last_map)
    also have "\<dots> = last projected / (1 + r) ^ 20"
      unfolding last_enumerate [OF assms(1)] len by (simp del: power_Suc)
    finally show ?thesis by (simp only: pw times_divide_eq_right mult_1_right)
  qed
  from t dt row eps_discounted_closed_form [OF r] show ?thesis by simp
qed

theorem eps_terminal_value_formula_witness:
  "replicate 20 (3::real) \<noteq> [] \<and> (4 / 100 :: real) < 10 / 100
   \<and> eps_terminal (replicate 20 3) (10 / 100) = Inr (3 * (104 / 100) / (6 / 100))
   \<and> eps_discounted_terminal 52 (10 / 100) = Inr (52 * (1 + 10 / 100) powi (- 20))
   \<and> length (replicate 20 (3::real)) = 20
   \<and> (\<exists>discounted. eps_discounted (replicate 20 3) (10 / 100) = Inr discounted
         \<and> last discounted = 3 * (1 + 10 / 100) powi (- 20))"
proof -
  have h1: "replicate 20 (3::real) \<noteq> []" by simp
  have h2: "(4 / 100 :: real) < 10 / 100" by simp
  from h1 h2 eps_terminal_value_formula [OF h1 h2, of 52] show ?thesis by simp
qed

section \<open>Claims about both variants\<close>




text \<open>
  C8. The derived discount rate is \<open>0.045 + beta * 0.025\<close>, where \<open>beta\<close> is the provider's
  value when it is present and strictly positive, and 1.0 in every other case (absent,
  \<^verbatim>\<open>None\<close>, zero, negative, malformed, or a failure of the provider).
\<close>

theorem discount_rate_from_beta:
  "(stock = Inr info \<and> info ''beta'' = Some (PyNum b) \<and> 0 < b
      \<longrightarrow> calculated_discount_rate stock = 45 / 1000 + b * (25 / 1000))
 \<and> (\<not> (\<exists>info b. stock = Inr info \<and> info ''beta'' = Some (PyNum b) \<and> 0 < b)
      \<longrightarrow> calculated_discount_rate stock = 45 / 1000 + 1 * (25 / 1000))"
  by (auto simp: calculated_discount_rate_def RISK_FREE_RATE_def MARKET_RISK_PREMIUM_def
        get_beta_positive get_beta_default)

theorem discount_rate_from_beta_witness:
  "calculated_discount_rate (Inr [''beta'' \<mapsto> PyNum 2]) = 45 / 1000 + 2 * (25 / 1000)
   \<and> calculated_discount_rate (Inr [''beta'' \<mapsto> PyNum (- 1)]) = 45 / 1000 + 1 * (25 / 1000)
   \<and> calculated_discount_rate (Inr [''beta'' \<mapsto> PyNone]) = 45 / 1000 + 1 * (25 / 1000)
   \<and> calculated_discount_rate (Inr Map.empty) = 45 / 1000 + 1 * (25 / 1000)
   \<and> calculated_discount_rate (Inl ProviderError) = 45 / 1000 + 1 * (25 / 1000)"
proof -
  have a: "calculated_discount_rate (Inr [''beta'' \<mapsto> PyNum 2]) = 45 / 1000 + 2 * (25 / 1000)"
    using discount_rate_from_beta [of "Inr [''beta'' \<mapsto> PyNum 2]" "[''beta'' \<mapsto> PyNum 2]" 2]
    by simp
  have b: "calculated_discount_rate (Inr [''beta'' \<mapsto> PyNum (- 1)]) = 45 / 1000 + 1 * (25 / 1000)"
    using discount_rate_from_beta [of "Inr [''beta'' \<mapsto> PyNum (- 1)]"]
    by simp
  have c: "calculated_discount_rate (Inr [''beta'' \<mapsto> PyNone]) = 45 / 1000 + 1 * (25 / 1000)"
    using discount_rate_from_beta [of "Inr [''beta'' \<mapsto> PyNone]"]
    by simp
  have d: "calculated_discount_rate (Inr Map.empty) = 45 / 1000 + 1 * (25 / 1000)"
    using discount_rate_from_beta [of "Inr Map.empty"]
    by simp
  have e: "calculated_discount_rate (Inl ProviderError) = 45 / 1000 + 1 * (25 / 1000)"
    using discount_rate_from_beta [of "Inl ProviderError"]
    by simp
  from a b c d e show ?thesis by blast
qed

text \<open>
  C9. For every outcome of the provider (a failure, or any dictionary of absent,
  \<^verbatim>\<open>None\<close>, non-positive or malformed fields) and every discount rate, neither
  valuation lets an exception leave the call: each returns normally, with a numeric result
  or with \<^verbatim>\<open>None\<close>. The functions read and write no state besides the messages they
  show, so the outcome of a call is a function of its own arguments only.
\<close>

theorem valuation_never_raises:
  "(\<exists>result msgs. calculate_eps_valuation stock discount_rate growth_rate = Inr (result, msgs))
 \<and> (\<exists>result msgs. calculate_ocf_based_intrinsic_value stock discount_rate = Inr (result, msgs))"
proof
  show "\<exists>result msgs. calculate_eps_valuation stock discount_rate growth_rate = Inr (result, msgs)"
    unfolding calculate_eps_valuation_def by (rule try_except_caught)
  show "\<exists>result msgs. calculate_ocf_based_intrinsic_value stock discount_rate = Inr (result, msgs)"
    unfolding calculate_ocf_based_intrinsic_value_def by (rule try_except_caught)
qed

end
